theory Spec2Isabelle
  imports Main "HOL-Library.Product_Lexorder" "HOL-Library.Multiset"
begin

section \<open>Data model (models.py)\<close>

text \<open>
  Python strings are modelled as \<^typ>\<open>string\<close>; the code only concatenates them, compares
  them and strips white space. A nullable column is an \<^typ>\<open>'a option\<close>. A naive
  \<open>datetime\<close> is its seven fields; Python compares two of them field by field, from
  the year down to the microsecond, which is the lexicographic order of \<open>dt_key\<close>.
\<close>

datatype datetime =
  DateTime (year: nat) (month: nat) (day: nat) (hour: nat) (minute: nat) (second: nat)
    (microsecond: nat)

definition dt_key :: "datetime \<Rightarrow> nat \<times> nat \<times> nat \<times> nat \<times> nat \<times> nat \<times> nat" where
  "dt_key t = (year t, month t, day t, hour t, minute t, second t, microsecond t)"

record password =
  id_p :: nat
  hash :: string

record card =
  id_c :: nat
  category_c :: string
  n_col :: "string option"
  modulo_sector :: "string option"
  categoria :: "string option"
  subcategoria :: "string option"
  nombre_tarjeta :: "string option"
  tipo_tarjeta :: "string option"
  numero_tarjeta :: "string option"
  status :: "string option"

record delivery =
  id_d :: nat
  category_d :: string
  card_id :: "nat option"
  card_number :: "string option"
  rut :: "string option"
  nombre :: "string option"
  cargo :: "string option"
  empresa :: "string option"
  entrega_at :: datetime
  devolucion_at :: "datetime option"

text \<open>
  The three tables. Each list is in the order in which the database enumerates the rows of
  the table; the \<open>created_at\<close> columns, which the application writes by default and never
  reads, are left out, and the length limits of the string columns are not enforced.
\<close>

record store =
  passwords :: "password list"
  cards :: "card list"
  deliveries :: "delivery list"

section \<open>Date and status helpers (app.py)\<close>

definition digit :: "nat \<Rightarrow> char" where
  "digit d = ''0123456789'' ! (d mod 10)"

text \<open>
  \<open>format_dt\<close>. The library call \<open>dt.strftime("%Y-%m-%d %H:%M:%S")\<close> is the parameter
  \<open>strftime\<close>.
\<close>

definition format_dt :: "(datetime \<Rightarrow> string) \<Rightarrow> datetime option \<Rightarrow> string" where
  "format_dt strftime dt = (case dt of None \<Rightarrow> [] | Some t \<Rightarrow> strftime t)"

text \<open>Python truth of a nullable string (\<open>None\<close> and the empty string are false).\<close>

definition truthy :: "string option \<Rightarrow> bool" where
  "truthy v = (case v of None \<Rightarrow> False | Some s \<Rightarrow> s \<noteq> [])"

text \<open>\<open>v or ""\<close> on a nullable string.\<close>

definition or_empty :: "string option \<Rightarrow> string" where
  "or_empty v = (case v of None \<Rightarrow> [] | Some s \<Rightarrow> s)"

text \<open>
  \<open>.order_by(Delivery.entrega_at.asc())\<close>. The query names no second sort key, so rows
  with equal \<open>entrega_at\<close> come out in the order the database enumerates them: the sort
  is stable on the list order of the store.
\<close>

definition order_by_entrega_asc :: "delivery list \<Rightarrow> delivery list" where
  "order_by_entrega_asc ds = sort_key (\<lambda>d. dt_key (entrega_at d)) ds"

text \<open>\<open>Delivery.query.filter_by(category=card.category, card_id=card.id)\<close>\<close>

definition filter_by_card :: "string \<Rightarrow> nat \<Rightarrow> delivery list \<Rightarrow> delivery list" where
  "filter_by_card cat cid ds = filter (\<lambda>d. category_d d = cat \<and> card_id d = Some cid) ds"

text \<open>The query of \<open>compute_card_status\<close>: the deliveries of a card, oldest first.\<close>

definition card_deliveries :: "store \<Rightarrow> card \<Rightarrow> delivery list" where
  "card_deliveries s c =
     order_by_entrega_asc (filter_by_card (category_c c) (id_c c) (deliveries s))"

text \<open>
  \<open>compute_card_status\<close> returns (texto_estado, tipo_estado), the second being one of
  \<open>Disponible\<close> (the spec's Available), \<open>Entregadas\<close> (Delivered) and \<open>Devueltas\<close>
  (Returned). A \<open>datetime\<close> is always true in Python, so the tests on
  \<open>last.devolucion_at\<close> and \<open>last.entrega_at\<close> are tests for \<open>None\<close>, and the second
  always succeeds: \<open>entrega_at\<close> is not nullable.
\<close>

definition compute_card_status ::
  "(datetime \<Rightarrow> string) \<Rightarrow> store \<Rightarrow> card \<Rightarrow> string \<times> string" where
  "compute_card_status strftime s c =
     (let ds = card_deliveries s c in
      if ds = [] then (''Disponible'', ''Disponible'')
      else
        let l = last ds in
        if devolucion_at l \<noteq> None
        then (''Disponible (devuelto '' @ format_dt strftime (devolucion_at l) @ '')'', ''Devueltas'')
        else
          let base = ''Entregada'';
              base = (if truthy (nombre l) then ''Entregada a '' @ or_empty (nombre l) else base);
              base = (if Some (entrega_at l) \<noteq> None
                      then base @ '' ('' @ format_dt strftime (Some (entrega_at l)) @ '')'' else base)
          in (base, ''Entregadas''))"

text \<open>
  The query of \<open>get_last_open_delivery\<close> before it is ordered: the deliveries of the card
  with \<open>devolucion_at IS NULL\<close>.
\<close>

definition open_deliveries :: "store \<Rightarrow> card \<Rightarrow> delivery list" where
  "open_deliveries s c =
     filter (\<lambda>d. devolucion_at d = None)
       (filter_by_card (category_c c) (id_c c) (deliveries s))"

text \<open>\<open>get_last_open_delivery\<close>: the last delivery without a return, or \<open>None\<close>.\<close>

definition get_last_open_delivery :: "store \<Rightarrow> card \<Rightarrow> delivery option" where
  "get_last_open_delivery s c =
     (let ds = order_by_entrega_asc (open_deliveries s c)
      in if ds = [] then None else Some (last ds))"

text \<open>
  The latest \<open>entrega_at\<close> of a list of deliveries is held by one delivery only: two
  deliveries that are both at least as late as every other are the same delivery.
\<close>

definition single_latest :: "delivery list \<Rightarrow> bool" where
  "single_latest ds \<longleftrightarrow>
     (\<forall>a \<in> set ds. \<forall>b \<in> set ds.
        (\<forall>d \<in> set ds. dt_key (entrega_at d) \<le> dt_key (entrega_at a)) \<and>
        (\<forall>d \<in> set ds. dt_key (entrega_at d) \<le> dt_key (entrega_at b)) \<longrightarrow> a = b)"

section \<open>Default credentials (app.py)\<close>

datatype error = NotFound | IntegrityError

definition DEFAULT_PASSWORDS :: "string list" where
  "DEFAULT_PASSWORDS = [''Javier_Aramark_2025'', ''Lorena_Aramark_2025'', ''Carolina_Aramark_2025'']"

text \<open>
  The next value of an integer primary key: one more than the largest key in the table.
\<close>

definition next_id :: "nat list \<Rightarrow> nat" where
  "next_id ids = Suc (foldr max ids 0)"

text \<open>
  \<open>db.session.add(Password(hash=h))\<close> for each digest in turn, the keys assigned in that
  order.
\<close>

fun add_passwords :: "string list \<Rightarrow> password list \<Rightarrow> password list" where
  "add_passwords [] ps = ps"
| "add_passwords (h # hs) ps =
     add_passwords hs (ps @ [\<lparr>id_p = next_id (map id_p ps), hash = h\<rparr>])"

text \<open>
  \<open>ensure_default_passwords\<close>. The digest \<open>_sha256\<close> (hashlib's SHA-256, in hexadecimal)
  is the parameter \<open>sha256\<close>. The set \<open>existing\<close> is read once, before the loop. The
  column \<open>hash\<close> is declared unique, so the commit raises when two of the added rows hold
  the same digest.
\<close>

definition ensure_default_passwords :: "(string \<Rightarrow> string) \<Rightarrow> store \<Rightarrow> error + store" where
  "ensure_default_passwords sha256 s =
     (let existing = set (map hash (passwords s));
          new = filter (\<lambda>h. h \<notin> existing) (map sha256 DEFAULT_PASSWORDS)
      in if new = [] then Inr s
         else if \<not> distinct new then Inl IntegrityError
         else Inr (s\<lparr>passwords := add_passwords new (passwords s)\<rparr>))"

text \<open>
  The SHA-256 digests of the three default credentials and of one other credential, as
  hashlib prints them; used where a run needs concrete digests.
\<close>

definition sha256_table :: "string \<Rightarrow> string" where
  "sha256_table p =
     (if p = ''Javier_Aramark_2025''
      then ''cd4ef933429470f1d23901a5616255fe81444e83201984cf27e639bec64804cb''
      else if p = ''Lorena_Aramark_2025''
      then ''9f4f57e6598572e2e87b2742822112483a25dd6774d97291e784e91033c93d9c''
      else if p = ''Carolina_Aramark_2025''
      then ''a5b07e1516734beb9ff4d2ea69b22ac92e84014404f39d2bdefa735ff87822f1''
      else if p = ''Bodega_2026''
      then ''c0c9f7ee783cf9309823f5a061510ce5b621fe0f858f6dda37a0772e80c815e8''
      else [])"

section \<open>Categories (app.py)\<close>

definition CATEGORY_ORDER :: "string list" where
  "CATEGORY_ORDER = [''MODULO'', ''MAESTRA'', ''MANTENCION'', ''PROVISORIA'']"

text \<open>
  \<open>CATEGORY_DEFINITIONS\<close>: for each category the pairs (field name, label). The labels
  hold the characters U+00B0, U+00F3 and U+00ED, written by their code.
\<close>

definition CATEGORY_DEFINITIONS :: "(string \<times> (string \<times> string) list) list" where
  "CATEGORY_DEFINITIONS =
     [(''MODULO'',
        [(''n'', ''N'' @ [CHR 0xB0]),
         (''modulo_sector'', ''M'' @ [CHR 0xF3] @ ''dulo / Sector''),
         (''nombre_tarjeta'', ''Nombre de la Tarjeta''),
         (''tipo_tarjeta'', ''Tipo de Tarjeta''),
         (''numero_tarjeta'', ''Numero de tarjeta'')]),
      (''MAESTRA'',
        [(''n'', ''N'' @ [CHR 0xB0]),
         (''categoria'', ''Categor'' @ [CHR 0xED] @ ''a''),
         (''nombre_tarjeta'', ''Nombre de la Tarjeta''),
         (''tipo_tarjeta'', ''Tipo de Tarjeta''),
         (''numero_tarjeta'', ''Numero Tarjeta'')]),
      (''MANTENCION'',
        [(''n'', ''N'' @ [CHR 0xB0]),
         (''categoria'', ''Categor'' @ [CHR 0xED] @ ''a''),
         (''subcategoria'', ''Subcategor'' @ [CHR 0xED] @ ''a''),
         (''nombre_tarjeta'', ''Nombre de la Tarjeta''),
         (''tipo_tarjeta'', ''Tipo de Tarjeta''),
         (''numero_tarjeta'', ''Numero Tarjeta'')]),
      (''PROVISORIA'',
        [(''n'', ''N'' @ [CHR 0xB0]),
         (''categoria'', ''Categor'' @ [CHR 0xED] @ ''a''),
         (''nombre_tarjeta'', ''Nombre de la Tarjeta''),
         (''tipo_tarjeta'', ''Tipo de Tarjeta''),
         (''numero_tarjeta'', ''Numero Tarjeta'')])]"

section \<open>Strings\<close>

text \<open>The characters that \<open>str.strip()\<close> removes, among the first 256 code points.\<close>

definition is_space :: "char \<Rightarrow> bool" where
  "is_space ch \<longleftrightarrow>
     ch \<in> set [CHR 0x09, CHR 0x0A, CHR 0x0B, CHR 0x0C, CHR 0x0D, CHR 0x1C, CHR 0x1D,
               CHR 0x1E, CHR 0x1F, CHR 0x20, CHR 0x85, CHR 0xA0]"

definition strip :: "string \<Rightarrow> string" where
  "strip s = rev (dropWhile is_space (rev (dropWhile is_space s)))"

text \<open>\<open>str(k)\<close> for a non-negative integer.\<close>

fun str_nat :: "nat \<Rightarrow> string" where
  "str_nat k = (if k < 10 then [digit k] else str_nat (k div 10) @ [digit k])"

declare str_nat.simps [simp del]

section \<open>Recording a delivery or a return (app.py, \<open>deliver_card\<close>)\<close>

datatype http_method = GET | POST

record form_data =
  fd_rut :: string
  fd_nombre :: string
  fd_cargo :: string
  fd_empresa :: string
  fd_entrega_at :: string
  fd_devolucion_at :: string

text \<open>
  What a view returns: a redirect to the category page or back to the delivery form, or
  the rendered page (\<open>history.html\<close> with its arguments).
\<close>

datatype response =
    Redirect_category_view string
  | Redirect_deliver_card string nat
  | Render_history card form_data "delivery option" "delivery option" string

text \<open>A flashed message with its category.\<close>

type_synonym flash = "string \<times> string"

text \<open>\<open>request.form.get(key, "")\<close>\<close>

definition form_get :: "(string \<Rightarrow> string option) \<Rightarrow> string \<Rightarrow> string" where
  "form_get form key = (case form key of None \<Rightarrow> [] | Some v \<Rightarrow> v)"

text \<open>
  \<open>parse_dt_str\<close>. The library call \<open>datetime.strptime(s, "%Y-%m-%d %H:%M:%S")\<close> is the
  parameter \<open>strptime\<close>, \<open>None\<close> where the library raises.
\<close>

definition parse_dt_str :: "(string \<Rightarrow> datetime option) \<Rightarrow> string \<Rightarrow> datetime option" where
  "parse_dt_str strptime s = (if s = [] then None else strptime s)"

text \<open>\<open>Card.query.filter_by(id=card_id, category=category_code).first()\<close>\<close>

definition find_card :: "store \<Rightarrow> nat \<Rightarrow> string \<Rightarrow> card option" where
  "find_card s cid code = find (\<lambda>c. id_c c = cid \<and> category_c c = code) (cards s)"

text \<open>The assignments to the open record: the row with that key is rewritten.\<close>

definition update_open ::
  "delivery \<Rightarrow> string \<Rightarrow> string \<Rightarrow> string \<Rightarrow> string \<Rightarrow> datetime \<Rightarrow> datetime option \<Rightarrow>
   delivery list \<Rightarrow> delivery list" where
  "update_open last_open r nm cg em ent dev ds =
     map (\<lambda>d. if id_d d = id_d last_open
               then d\<lparr>rut := Some r, nombre := Some nm, cargo := Some cg, empresa := Some em,
                      entrega_at := ent, devolucion_at := dev\<rparr>
               else d) ds"

text \<open>
  \<open>deliver_card\<close>, below the \<open>login_required\<close> decorator. \<open>now\<close> is the value of
  \<open>datetime.utcnow()\<close> in the request; \<open>abort(404)\<close> and \<open>first_or_404\<close> are the error
  \<open>NotFound\<close>. The result is the response, the flashed message and the store after the
  request.
\<close>

definition deliver_card ::
  "(string \<Rightarrow> datetime option) \<Rightarrow> (datetime \<Rightarrow> string) \<Rightarrow> datetime \<Rightarrow> http_method \<Rightarrow>
   (string \<Rightarrow> string option) \<Rightarrow> string \<Rightarrow> nat \<Rightarrow> store \<Rightarrow>
   error + (response \<times> flash option \<times> store)" where
  "deliver_card strptime strftime now method form category_code cid s =
     (if map_of CATEGORY_DEFINITIONS category_code = None then Inl NotFound
      else case find_card s cid category_code of
        None \<Rightarrow> Inl NotFound
      | Some c \<Rightarrow>
         (let last_open = get_last_open_delivery s c;
              last_any = order_by_entrega_asc (filter_by_card category_code (id_c c) (deliveries s));
              last_any = (if last_any \<noteq> [] then Some (last last_any) else None)
          in if method = POST then
               (let r = strip (form_get form ''rut'');
                    nm = strip (form_get form ''nombre'');
                    cg = strip (form_get form ''cargo'');
                    em = strip (form_get form ''empresa'');
                    entrega_str = strip (form_get form ''entrega_at'');
                    devolucion_str = strip (form_get form ''devolucion_at'')
                in if r = [] \<or> nm = []
                   then Inr (Redirect_deliver_card category_code cid,
                             Some (''RUT y Nombre son obligatorios.'', ''warning''), s)
                   else
                     (let ent = (case parse_dt_str strptime entrega_str of
                                   Some t \<Rightarrow> t | None \<Rightarrow> now);
                          dev = parse_dt_str strptime devolucion_str;
                          s' = (case last_open of
                                  Some lo \<Rightarrow>
                                    s\<lparr>deliveries := update_open lo r nm cg em ent dev (deliveries s)\<rparr>
                                | None \<Rightarrow>
                                    s\<lparr>deliveries := deliveries s @
                                       [\<lparr>id_d = next_id (map id_d (deliveries s)),
                                         category_d = category_code,
                                         card_id = Some (id_c c),
                                         card_number = Some (or_empty (numero_tarjeta c)),
                                         rut = Some r, nombre = Some nm, cargo = Some cg,
                                         empresa = Some em,
                                         entrega_at = ent, devolucion_at = dev\<rparr>]\<rparr>)
                      in Inr (Redirect_category_view category_code,
                              Some (''Registro de entrega / devoluci'' @ [CHR 0xF3] @ ''n guardado.'',
                                    ''success''), s')))
             else
               (let now_str = format_dt strftime (Some now);
                    fd = \<lparr>fd_rut = [], fd_nombre = [], fd_cargo = [], fd_empresa = [],
                          fd_entrega_at = now_str, fd_devolucion_at = []\<rparr>;
                    fd = (case last_open of
                            Some lo \<Rightarrow>
                              \<lparr>fd_rut = or_empty (rut lo), fd_nombre = or_empty (nombre lo),
                               fd_cargo = or_empty (cargo lo), fd_empresa = or_empty (empresa lo),
                               fd_entrega_at = format_dt strftime (Some (entrega_at lo)),
                               fd_devolucion_at = now_str\<rparr>
                          | None \<Rightarrow>
                             (case last_any of
                                Some la \<Rightarrow>
                                  \<lparr>fd_rut = or_empty (rut la), fd_nombre = or_empty (nombre la),
                                   fd_cargo = or_empty (cargo la), fd_empresa = or_empty (empresa la),
                                   fd_entrega_at = format_dt strftime (Some (entrega_at la)),
                                   fd_devolucion_at = format_dt strftime (devolucion_at la)\<rparr>
                              | None \<Rightarrow> fd))
                in Inr (Render_history c fd last_open last_any category_code, None, s))))"

section \<open>Importing cards from a spreadsheet (app.py, \<open>import_cards\<close>)\<close>

text \<open>
  The sheet as \<open>pd.read_excel(file, dtype=str).fillna("")\<close> returns it: the column names
  and, for each row, its cells in the order of the columns, all of them strings.
\<close>

record dataframe =
  columns :: "string list"
  rows :: "string list list"

text \<open>The upload: no file chosen, a file that pandas cannot read (with the message of the
  exception), or a sheet.\<close>

datatype upload = No_file | Unreadable string | Sheet dataframe

text \<open>\<open>str(row.get(name, "")).strip()\<close>\<close>

definition row_get :: "dataframe \<Rightarrow> string list \<Rightarrow> string \<Rightarrow> string" where
  "row_get df row name =
     strip (case map_of (zip (columns df) row) name of None \<Rightarrow> [] | Some v \<Rightarrow> v)"

text \<open>The value the loop maps to a field: the column named by the field name, else the
  column named by the label, else the empty string.\<close>

definition field_value :: "dataframe \<Rightarrow> string list \<Rightarrow> string \<times> string \<Rightarrow> string" where
  "field_value df row fl =
     (if fst fl \<in> set (columns df) then row_get df row (fst fl)
      else if snd fl \<in> set (columns df) then row_get df row (snd fl)
      else [])"

text \<open>\<open>setattr(card, field_name, value)\<close> for the column names of the categories.\<close>

definition setattr_card :: "card \<Rightarrow> string \<Rightarrow> string \<Rightarrow> card" where
  "setattr_card c name v =
     (if name = ''n'' then c\<lparr>n_col := Some v\<rparr>
      else if name = ''modulo_sector'' then c\<lparr>modulo_sector := Some v\<rparr>
      else if name = ''categoria'' then c\<lparr>categoria := Some v\<rparr>
      else if name = ''subcategoria'' then c\<lparr>subcategoria := Some v\<rparr>
      else if name = ''nombre_tarjeta'' then c\<lparr>nombre_tarjeta := Some v\<rparr>
      else if name = ''tipo_tarjeta'' then c\<lparr>tipo_tarjeta := Some v\<rparr>
      else if name = ''numero_tarjeta'' then c\<lparr>numero_tarjeta := Some v\<rparr>
      else c)"

text \<open>The inner loop over the fields of the category, on the pair (card, empty).\<close>

fun fill_fields ::
  "dataframe \<Rightarrow> string list \<Rightarrow> (string \<times> string) list \<Rightarrow> card \<times> bool \<Rightarrow> card \<times> bool" where
  "fill_fields df row [] acc = acc"
| "fill_fields df row (fl # fls) acc =
     (let v = field_value df row fl
      in fill_fields df row fls
           (if v \<noteq> [] then (setattr_card (fst acc) (fst fl) v, False) else acc))"

text \<open>The status cell of a row, as the loop reads it.\<close>

definition raw_status :: "dataframe \<Rightarrow> string list \<Rightarrow> string" where
  "raw_status df row =
     (if ''status'' \<in> set (columns df) then row_get df row ''status''
      else if ''Activa / Inactiva'' \<in> set (columns df)
      then row_get df row ''Activa / Inactiva''
      else [])"

definition status_value :: "dataframe \<Rightarrow> string list \<Rightarrow> string" where
  "status_value df row =
     (let status_val = raw_status df row
      in if status_val \<noteq> ''Activa'' \<and> status_val \<noteq> ''Inactiva'' then ''Activa'' else status_val)"

text \<open>\<open>Card(category=category_code)\<close>; the key is assigned when the card is added.\<close>

definition new_card :: "string \<Rightarrow> card" where
  "new_card code =
     \<lparr>id_c = 0, category_c = code, n_col = None, modulo_sector = None, categoria = None,
      subcategoria = None, nombre_tarjeta = None, tipo_tarjeta = None, numero_tarjeta = None,
      status = None\<rparr>"

text \<open>One row of the sheet: the card built from it and whether the row was empty.\<close>

definition row_card ::
  "dataframe \<Rightarrow> string \<Rightarrow> (string \<times> string) list \<Rightarrow> string list \<Rightarrow> card \<times> bool" where
  "row_card df code flds row =
     (let (c, empty) = fill_fields df row flds (new_card code, True)
      in (c\<lparr>status := Some (status_value df row)\<rparr>, empty))"

text \<open>The loop over the rows, on the pair (cards of the session, imported).\<close>

fun import_rows ::
  "dataframe \<Rightarrow> string \<Rightarrow> (string \<times> string) list \<Rightarrow> string list list \<Rightarrow>
   card list \<times> nat \<Rightarrow> card list \<times> nat" where
  "import_rows df code flds [] acc = acc"
| "import_rows df code flds (row # rest) acc =
     (let (c, empty) = row_card df code flds row
      in import_rows df code flds rest
           (if \<not> empty
            then (fst acc @ [c\<lparr>id_c := next_id (map id_c (fst acc))\<rparr>], snd acc + 1)
            else acc))"

definition import_cards ::
  "upload \<Rightarrow> string \<Rightarrow> store \<Rightarrow> error + (response \<times> flash option \<times> store)" where
  "import_cards file category_code s =
     (case map_of CATEGORY_DEFINITIONS category_code of
        None \<Rightarrow> Inl NotFound
      | Some flds \<Rightarrow>
         (case file of
            No_file \<Rightarrow>
              Inr (Redirect_category_view category_code,
                   Some (''Seleccione un archivo Excel para importar.'', ''warning''), s)
          | Unreadable e \<Rightarrow>
              Inr (Redirect_category_view category_code,
                   Some (''No se pudo leer el archivo Excel: '' @ e, ''danger''), s)
          | Sheet df \<Rightarrow>
             (let (cs, imported) = import_rows df category_code flds (rows df) (cards s, 0)
              in if imported \<noteq> 0
                 then Inr (Redirect_category_view category_code,
                           Some (''Se importaron '' @ str_nat imported @
                                 '' tarjetas desde el Excel.'', ''success''),
                           s\<lparr>cards := cs\<rparr>)
                 else Inr (Redirect_category_view category_code,
                           Some (''No se encontraron registros v'' @ [CHR 0xE1] @
                                 ''lidos en el archivo.'', ''info''), s))))"

text \<open>
  A row has at least one non-empty mapped field: some field of the category gets a value
  that is not empty once stripped, the test of the inner loop.
\<close>

definition row_has_value :: "dataframe \<Rightarrow> (string \<times> string) list \<Rightarrow> string list \<Rightarrow> bool" where
  "row_has_value df flds row \<longleftrightarrow> list_ex (\<lambda>fl. field_value df row fl \<noteq> []) flds"

section \<open>Concrete data for the runs below\<close>

definition card_1001 :: card where
  "card_1001 =
     \<lparr>id_c = 1, category_c = ''MODULO'', n_col = Some ''1'', modulo_sector = Some ''Bodega'',
      categoria = None, subcategoria = None, nombre_tarjeta = Some ''Bodega norte'',
      tipo_tarjeta = Some ''Llave'', numero_tarjeta = Some ''1001'', status = Some ''Activa''\<rparr>"

definition t_jan1 :: datetime where
  "t_jan1 = DateTime 2024 1 1 10 0 0 0"

definition t_jan3 :: datetime where
  "t_jan3 = DateTime 2024 1 3 8 30 0 0"

definition t_jan5 :: datetime where
  "t_jan5 = DateTime 2024 1 5 9 0 0 0"

definition t_now :: datetime where
  "t_now = DateTime 2024 1 6 12 0 0 250000"

text \<open>
  The values of the library's \<open>strptime\<close> on the three date strings of the runs below; no
  other string reaches it there.
\<close>

definition strptime_table :: "string \<Rightarrow> datetime option" where
  "strptime_table x =
     (if x = ''2024-01-01 10:00:00'' then Some t_jan1
      else if x = ''2024-01-03 08:30:00'' then Some t_jan3
      else if x = ''2024-01-05 09:00:00'' then Some t_jan5
      else None)"

text \<open>
  The values of the library's \<open>strftime\<close> on the four dates of the runs below; no other
  date reaches it there.
\<close>

definition strftime_table :: "datetime \<Rightarrow> string" where
  "strftime_table t =
     (if t = t_jan1 then ''2024-01-01 10:00:00''
      else if t = t_jan3 then ''2024-01-03 08:30:00''
      else if t = t_jan5 then ''2024-01-05 09:00:00''
      else if t = t_now then ''2024-01-06 12:00:00''
      else [])"

text \<open>A posted form: RUT, name, date of delivery, date of return.\<close>

definition form_of :: "string \<Rightarrow> string \<Rightarrow> string \<Rightarrow> string \<Rightarrow> string \<Rightarrow> string option" where
  "form_of r nm ent dev =
     map_of [(''rut'', r), (''nombre'', nm), (''cargo'', ''Guardia''), (''empresa'', '' Aramark''),
             (''entrega_at'', ent), (''devolucion_at'', dev)]"

text \<open>A delivery of \<open>card_1001\<close> with the given key, holder, dates.\<close>

definition delivery_of :: "nat \<Rightarrow> string option \<Rightarrow> datetime \<Rightarrow> datetime option \<Rightarrow> delivery" where
  "delivery_of k nm ent dev =
     \<lparr>id_d = k, category_d = ''MODULO'', card_id = Some 1, card_number = Some ''1001'',
      rut = Some ''11.111.111-1'', nombre = nm, cargo = Some ''Guardia'',
      empresa = Some ''Aramark'', entrega_at = ent, devolucion_at = dev\<rparr>"

definition store_of :: "delivery list \<Rightarrow> store" where
  "store_of ds = \<lparr>passwords = [], cards = [card_1001], deliveries = ds\<rparr>"

text \<open>Three deliveries of \<open>card_1001\<close>: one returned, two open.\<close>

definition d_lopez :: "nat \<Rightarrow> datetime \<Rightarrow> delivery" where
  "d_lopez k ent = delivery_of k (Some ''A. Lopez'') ent (Some t_jan5)"

definition d_soto :: "nat \<Rightarrow> datetime \<Rightarrow> delivery" where
  "d_soto k ent = delivery_of k (Some ''B. Soto'') ent None"

definition d_rojas :: "nat \<Rightarrow> datetime \<Rightarrow> delivery" where
  "d_rojas k ent = delivery_of k (Some ''C. Rojas'') ent None"

text \<open>
  A sheet for the category \<open>MODULO\<close>: a full row, a row of blanks, and a row whose status
  is not one of the two recognised values.
\<close>

definition sheet_3 :: dataframe where
  "sheet_3 =
     \<lparr>columns = [''n'', ''Nombre de la Tarjeta'', ''Activa / Inactiva''],
      rows = [[''7'', ''Porton sur'', ''Inactiva''],
              [[], ''   '', ''Activa''],
              [''8'', [], ''activa'']]\<rparr>"

text \<open>
  A credential store after the three default credentials were removed and another one
  added.
\<close>

definition store_own_password :: store where
  "store_own_password =
     \<lparr>passwords = [\<lparr>id_p = 4, hash = sha256_table ''Bodega_2026''\<rparr>], cards = [], deliveries = []\<rparr>"

section \<open>Status resolver\<close>

lemmas example_defs =
  card_1001_def t_jan1_def t_jan3_def t_jan5_def t_now_def delivery_of_def store_of_def
  d_lopez_def d_soto_def d_rojas_def

lemmas run_defs =
  strptime_table_def form_of_def form_get_def strip_def is_space_def CATEGORY_DEFINITIONS_def
  find_card_def parse_dt_str_def

lemmas query_defs = card_deliveries_def order_by_entrega_asc_def filter_by_card_def dt_key_def

lemmas format_defs = format_dt_def strftime_table_def

text \<open>
  C4. A card with no delivery event has status text \<open>Disponible\<close> and status type
  \<open>Disponible\<close> (the spec's Available, "Available").
\<close>

theorem C4_no_events_available:
  "filter_by_card (category_c c) (id_c c) (deliveries s) = [] \<Longrightarrow>
   compute_card_status strftime s c = (''Disponible'', ''Disponible'')"
  by (simp add: compute_card_status_def card_deliveries_def order_by_entrega_asc_def)

theorem C4_no_events_available_witness:
  "filter_by_card (category_c card_1001) (id_c card_1001) (deliveries (store_of [])) = [] \<and>
   compute_card_status strftime_table (store_of []) card_1001 = (''Disponible'', ''Disponible'')"
  using C4_no_events_available [of card_1001 "store_of []"]
  by (simp add: example_defs query_defs)

text \<open>
  C2. When the deliveries of a card, oldest first, are not empty and the last one has a
  return date \<open>r\<close>, the status type is \<open>Devueltas\<close> (the spec's Returned) and the text is
  \<open>Disponible (devuelto <r>)\<close> (the spec's "Available (returned at ...)"), with \<open>r\<close>
  printed by the library's \<open>strftime\<close>.
\<close>

theorem C2_last_returned:
  "card_deliveries s c \<noteq> [] \<Longrightarrow>
   devolucion_at (last (card_deliveries s c)) = Some r \<Longrightarrow>
   compute_card_status strftime s c = (''Disponible (devuelto '' @ strftime r @ '')'', ''Devueltas'')"
  by (simp add: compute_card_status_def Let_def format_dt_def)

theorem C2_last_returned_witness:
  "card_deliveries (store_of [delivery_of 1 (Some ''A. Lopez'') t_jan1 (Some t_jan5)]) card_1001 \<noteq> [] \<and>
   devolucion_at (last (card_deliveries
     (store_of [delivery_of 1 (Some ''A. Lopez'') t_jan1 (Some t_jan5)]) card_1001)) = Some t_jan5 \<and>
   compute_card_status strftime_table (store_of [delivery_of 1 (Some ''A. Lopez'') t_jan1 (Some t_jan5)]) card_1001 =
     (''Disponible (devuelto 2024-01-05 09:00:00)'', ''Devueltas'')"
  using C2_last_returned
    [of "store_of [delivery_of 1 (Some ''A. Lopez'') t_jan1 (Some t_jan5)]" card_1001 t_jan5]
  by (simp add: example_defs query_defs format_defs)

text \<open>
  C3, as stated: when the last delivery has no return date and its holder name is blank,
  the text is the bare \<open>Entregada\<close> (the spec's generic "Delivered"). It fails: the date
  of delivery is appended whether or not there is a name.
\<close>

theorem C3_blank_name_counterexample:
  "card_deliveries (store_of [delivery_of 1 (Some []) t_jan1 None]) card_1001 \<noteq> [] \<and>
   devolucion_at (last (card_deliveries
     (store_of [delivery_of 1 (Some []) t_jan1 None]) card_1001)) = None \<and>
   \<not> truthy (nombre (last (card_deliveries
     (store_of [delivery_of 1 (Some []) t_jan1 None]) card_1001))) \<and>
   compute_card_status strftime_table (store_of [delivery_of 1 (Some []) t_jan1 None]) card_1001 =
     (''Entregada (2024-01-01 10:00:00)'', ''Entregadas'') \<and>
   compute_card_status strftime_table (store_of [delivery_of 1 (Some []) t_jan1 None]) card_1001 \<noteq>
     (''Entregada'', ''Entregadas'')"
  by (simp add: compute_card_status_def example_defs query_defs format_defs truthy_def)

text \<open>
  C3, amended. When the deliveries of a card are not empty and the last one has no return
  date, the status type is \<open>Entregadas\<close> (Delivered); the text is \<open>Entregada a <name>\<close>
  when the holder name is not blank and \<open>Entregada\<close> when it is, followed in both cases
  by the delivery date in parentheses.
\<close>

theorem C3_last_open:
  "card_deliveries s c \<noteq> [] \<Longrightarrow>
   devolucion_at (last (card_deliveries s c)) = None \<Longrightarrow>
   compute_card_status strftime s c =
     ((if truthy (nombre (last (card_deliveries s c)))
       then ''Entregada a '' @ or_empty (nombre (last (card_deliveries s c)))
       else ''Entregada'') @
      '' ('' @ strftime (entrega_at (last (card_deliveries s c))) @ '')'',
      ''Entregadas'')"
  by (simp add: compute_card_status_def Let_def format_dt_def)

theorem C3_last_open_witness:
  "card_deliveries (store_of [delivery_of 1 (Some ''A. Lopez'') t_jan1 None]) card_1001 \<noteq> [] \<and>
   devolucion_at (last (card_deliveries
     (store_of [delivery_of 1 (Some ''A. Lopez'') t_jan1 None]) card_1001)) = None \<and>
   compute_card_status strftime_table (store_of [delivery_of 1 (Some ''A. Lopez'') t_jan1 None]) card_1001 =
     (''Entregada a A. Lopez (2024-01-01 10:00:00)'', ''Entregadas'')"
  using C3_last_open [of "store_of [delivery_of 1 (Some ''A. Lopez'') t_jan1 None]" card_1001]
  by (simp add: example_defs query_defs format_defs truthy_def or_empty_def)

section \<open>Which delivery is the last one\<close>

lemma sorted_key_last_max:
  "sorted (map k ys) \<Longrightarrow> y \<in> set ys \<Longrightarrow> k y \<le> k (last ys)"
  by (induction ys) (auto split: if_splits)

lemma sort_key_not_Nil: "xs \<noteq> [] \<Longrightarrow> sort_key k xs \<noteq> []"
  by (metis length_0_conv length_sort)

lemma last_sort_key_mem: "xs \<noteq> [] \<Longrightarrow> last (sort_key k xs) \<in> set xs"
proof -
  assume "xs \<noteq> []"
  then have "sort_key k xs \<noteq> []" by (rule sort_key_not_Nil)
  then have "last (sort_key k xs) \<in> set (sort_key k xs)" by (rule last_in_set)
  then show ?thesis by simp
qed

lemma last_sort_key_max: "y \<in> set xs \<Longrightarrow> k y \<le> k (last (sort_key k xs))"
  by (rule sorted_key_last_max) simp_all

text \<open>
  C6, as stated: with two or more open deliveries, \<open>get_last_open_delivery\<close> returns the
  open delivery with the latest \<open>entrega_at\<close>, and among several with that date the one
  with the largest key. It fails: the query orders by \<open>entrega_at\<close> alone. Below, two open
  deliveries share the date and the one returned has the smaller key.
\<close>

theorem C6_id_tie_break_counterexample:
  "2 \<le> length (open_deliveries (store_of [d_soto 2 t_jan1, d_rojas 1 t_jan1]) card_1001) \<and>
   get_last_open_delivery (store_of [d_soto 2 t_jan1, d_rojas 1 t_jan1]) card_1001 =
     Some (d_rojas 1 t_jan1) \<and>
   d_soto 2 t_jan1 \<in> set (open_deliveries (store_of [d_soto 2 t_jan1, d_rojas 1 t_jan1]) card_1001) \<and>
   entrega_at (d_soto 2 t_jan1) = entrega_at (d_rojas 1 t_jan1) \<and>
   id_d (d_rojas 1 t_jan1) < id_d (d_soto 2 t_jan1)"
  by (simp add: get_last_open_delivery_def open_deliveries_def example_defs query_defs)

text \<open>
  C6, amended. With two or more open deliveries of a card, \<open>get_last_open_delivery\<close>
  returns one of them, and none of the open deliveries has a later \<open>entrega_at\<close>. Which
  of several open deliveries with that same date is returned is not decided by the key.
\<close>

theorem C6_latest_open:
  "2 \<le> length (open_deliveries s c) \<Longrightarrow>
   \<exists>e. get_last_open_delivery s c = Some e \<and> e \<in> set (open_deliveries s c) \<and>
       (\<forall>d \<in> set (open_deliveries s c). dt_key (entrega_at d) \<le> dt_key (entrega_at e))"
proof -
  let ?xs = "open_deliveries s c"
  let ?k = "\<lambda>d. dt_key (entrega_at d)"
  assume "2 \<le> length ?xs"
  then have ne: "?xs \<noteq> []" by auto
  then have ne': "sort_key ?k ?xs \<noteq> []" by (rule sort_key_not_Nil)
  have g: "get_last_open_delivery s c = Some (last (sort_key ?k ?xs))"
    using ne' by (simp add: get_last_open_delivery_def order_by_entrega_asc_def Let_def)
  have m: "last (sort_key ?k ?xs) \<in> set ?xs" using ne by (rule last_sort_key_mem)
  have mx: "\<forall>d \<in> set ?xs. ?k d \<le> ?k (last (sort_key ?k ?xs))"
    using last_sort_key_max [where k = ?k and xs = ?xs] by blast
  from g m mx show ?thesis by blast
qed

theorem C6_latest_open_witness:
  "2 \<le> length (open_deliveries (store_of [d_soto 2 t_jan5, d_rojas 1 t_jan1]) card_1001) \<and>
   (\<exists>e. get_last_open_delivery (store_of [d_soto 2 t_jan5, d_rojas 1 t_jan1]) card_1001 = Some e \<and>
        e \<in> set (open_deliveries (store_of [d_soto 2 t_jan5, d_rojas 1 t_jan1]) card_1001) \<and>
        (\<forall>d \<in> set (open_deliveries (store_of [d_soto 2 t_jan5, d_rojas 1 t_jan1]) card_1001).
           dt_key (entrega_at d) \<le> dt_key (entrega_at e)))"
proof -
  have h: "2 \<le> length (open_deliveries (store_of [d_soto 2 t_jan5, d_rojas 1 t_jan1]) card_1001)"
    by (simp add: open_deliveries_def example_defs query_defs)
  from h C6_latest_open [OF h] show ?thesis by blast
qed

text \<open>
  C5, as stated: the order that selects the last delivery has the primary key as a
  second sort key, so the same stored deliveries always give the same status, also when two
  of them share \<open>entrega_at\<close>. It fails: the query orders by \<open>entrega_at\<close> alone. Below,
  the same two rows, one returned and one open with the same date, give two different
  statuses in the two orders in which the store can enumerate them, and in the second the
  delivery chosen as last is the one with the smaller key.
\<close>

theorem C5_collision_counterexample:
  "mset (deliveries (store_of [d_lopez 1 t_jan1, d_soto 2 t_jan1])) =
     mset (deliveries (store_of [d_soto 2 t_jan1, d_lopez 1 t_jan1])) \<and>
   compute_card_status strftime_table (store_of [d_lopez 1 t_jan1, d_soto 2 t_jan1]) card_1001 =
     (''Entregada a B. Soto (2024-01-01 10:00:00)'', ''Entregadas'') \<and>
   compute_card_status strftime_table (store_of [d_soto 2 t_jan1, d_lopez 1 t_jan1]) card_1001 =
     (''Disponible (devuelto 2024-01-05 09:00:00)'', ''Devueltas'') \<and>
   last (card_deliveries (store_of [d_soto 2 t_jan1, d_lopez 1 t_jan1]) card_1001) =
     d_lopez 1 t_jan1 \<and>
   id_d (d_lopez 1 t_jan1) < id_d (d_soto 2 t_jan1)"
  by (simp add: compute_card_status_def example_defs query_defs format_defs truthy_def
      or_empty_def)

text \<open>
  C5, amended. Two stores that hold the same deliveries, in whatever order each enumerates
  them, give the same status for a card whenever the latest \<open>entrega_at\<close> among the
  deliveries of the card is held by one delivery only. There is no second sort key: when
  two deliveries share the latest date, the status follows the order of enumeration.
\<close>

theorem C5_deterministic_without_collision:
  assumes same: "mset (deliveries s1) = mset (deliveries s2)"
    and single: "single_latest (filter_by_card (category_c c) (id_c c) (deliveries s1))"
  shows "compute_card_status strftime s1 c = compute_card_status strftime s2 c"
proof -
  let ?k = "\<lambda>d. dt_key (entrega_at d)"
  let ?xs = "filter_by_card (category_c c) (id_c c) (deliveries s1)"
  let ?ys = "filter_by_card (category_c c) (id_c c) (deliveries s2)"
  have ms: "mset ?xs = mset ?ys"
    using same by (simp add: filter_by_card_def)
  then have st: "set ?xs = set ?ys" by (rule mset_eq_setD)
  show ?thesis
  proof (cases "?xs = []")
    case True
    with ms have "?ys = []" by simp
    with True show ?thesis
      by (simp add: compute_card_status_def card_deliveries_def order_by_entrega_asc_def)
  next
    case False
    with ms have ney: "?ys \<noteq> []" by auto
    have a: "last (sort_key ?k ?xs) \<in> set ?xs" using False by (rule last_sort_key_mem)
    have b: "last (sort_key ?k ?ys) \<in> set ?xs" using ney st last_sort_key_mem by blast
    have am: "\<forall>d \<in> set ?xs. ?k d \<le> ?k (last (sort_key ?k ?xs))"
      using last_sort_key_max [where k = ?k and xs = ?xs] by blast
    have bm: "\<forall>d \<in> set ?xs. ?k d \<le> ?k (last (sort_key ?k ?ys))"
      using st last_sort_key_max [where k = ?k and xs = ?ys] by blast
    have eq: "last (sort_key ?k ?xs) = last (sort_key ?k ?ys)"
      using single a b am bm unfolding single_latest_def by blast
    have nx: "sort_key ?k ?xs \<noteq> []" using False by (rule sort_key_not_Nil)
    have ny: "sort_key ?k ?ys \<noteq> []" using ney by (rule sort_key_not_Nil)
    show ?thesis
      using eq nx ny
      by (simp add: compute_card_status_def card_deliveries_def order_by_entrega_asc_def Let_def)
  qed
qed

theorem C5_deterministic_without_collision_witness:
  "mset (deliveries (store_of [d_lopez 1 t_jan1, d_soto 2 t_jan5])) =
     mset (deliveries (store_of [d_soto 2 t_jan5, d_lopez 1 t_jan1])) \<and>
   single_latest (filter_by_card (category_c card_1001) (id_c card_1001)
     (deliveries (store_of [d_lopez 1 t_jan1, d_soto 2 t_jan5]))) \<and>
   compute_card_status strftime_table (store_of [d_lopez 1 t_jan1, d_soto 2 t_jan5]) card_1001 =
     compute_card_status strftime_table (store_of [d_soto 2 t_jan5, d_lopez 1 t_jan1]) card_1001"
proof -
  have h1: "mset (deliveries (store_of [d_lopez 1 t_jan1, d_soto 2 t_jan5])) =
     mset (deliveries (store_of [d_soto 2 t_jan5, d_lopez 1 t_jan1]))"
    by (simp add: store_of_def)
  have h2: "single_latest (filter_by_card (category_c card_1001) (id_c card_1001)
     (deliveries (store_of [d_lopez 1 t_jan1, d_soto 2 t_jan5])))"
    by (simp add: single_latest_def example_defs query_defs)
  from h1 h2 C5_deterministic_without_collision [OF h1 h2] show ?thesis by blast
qed

section \<open>Recording a delivery\<close>











text \<open>
  Two requests on an empty history: a delivery to A. Lopez on 3 January with its return on
  5 January, then a delivery to B. Soto dated 1 January with no return. Neither finds an
  open delivery, so each adds a row.
\<close>

lemma run_lopez:
  "deliver_card strptime_table strftime_table t_now POST
     (form_of ''11.111.111-1'' ''A. Lopez'' ''2024-01-03 08:30:00'' ''2024-01-05 09:00:00'')
     ''MODULO'' 1 (store_of []) =
   Inr (Redirect_category_view ''MODULO'',
        Some (''Registro de entrega / devoluci'' @ [CHR 0xF3] @ ''n guardado.'', ''success''),
        store_of [d_lopez 1 t_jan3])"
  by (simp add: deliver_card_def Let_def get_last_open_delivery_def open_deliveries_def run_defs
      example_defs query_defs next_id_def or_empty_def)


text \<open>
  C10. A history with at most one open delivery, in which the open delivery is dated
  before a returned one (the history that \<open>run_lopez\<close> and \<open>run_soto\<close> record): the
  status of the card is \<open>Devueltas\<close>, shown as \<open>Disponible (devuelto ...)\<close>, while
  \<open>get_last_open_delivery\<close> returns the open delivery.
\<close>

theorem C10_available_while_open:
  "length (open_deliveries (store_of [d_lopez 1 t_jan3, d_soto 2 t_jan1]) card_1001) \<le> 1 \<and>
   dt_key (entrega_at (d_soto 2 t_jan1)) < dt_key (entrega_at (d_lopez 1 t_jan3)) \<and>
   devolucion_at (d_soto 2 t_jan1) = None \<and>
   devolucion_at (d_lopez 1 t_jan3) = Some t_jan5 \<and>
   compute_card_status strftime_table (store_of [d_lopez 1 t_jan3, d_soto 2 t_jan1]) card_1001 =
     (''Disponible (devuelto 2024-01-05 09:00:00)'', ''Devueltas'') \<and>
   get_last_open_delivery (store_of [d_lopez 1 t_jan3, d_soto 2 t_jan1]) card_1001 =
     Some (d_soto 2 t_jan1)"
  by (simp add: compute_card_status_def get_last_open_delivery_def open_deliveries_def
      example_defs query_defs format_defs)

text \<open>
  C7. A \<open>POST\<close> for an existing card in which the RUT or the name is empty (absent, empty,
  or white space only: the fields are stripped first) is answered with the warning
  \<open>RUT y Nombre son obligatorios.\<close> and a redirect back to the form, and the store is
  returned as it was.
\<close>

theorem C7_required_fields:
  assumes cat: "map_of CATEGORY_DEFINITIONS code \<noteq> None"
    and crd: "find_card s cid code = Some c"
    and blank: "strip (form_get form ''rut'') = [] \<or> strip (form_get form ''nombre'') = []"
  shows "deliver_card strptime strftime now POST form code cid s =
           Inr (Redirect_deliver_card code cid,
                Some (''RUT y Nombre son obligatorios.'', ''warning''), s)"
  using assms by (auto simp add: deliver_card_def Let_def)

theorem C7_required_fields_witness:
  "map_of CATEGORY_DEFINITIONS ''MODULO'' \<noteq> None \<and>
   find_card (store_of [d_lopez 1 t_jan3]) 1 ''MODULO'' = Some card_1001 \<and>
   (strip (form_get (form_of ''  '' ''B. Soto'' ''2024-01-01 10:00:00'' []) ''rut'') = [] \<or>
    strip (form_get (form_of ''  '' ''B. Soto'' ''2024-01-01 10:00:00'' []) ''nombre'') = []) \<and>
   deliver_card strptime_table strftime_table t_now POST (form_of ''  '' ''B. Soto'' ''2024-01-01 10:00:00'' [])
       ''MODULO'' 1 (store_of [d_lopez 1 t_jan3]) =
     Inr (Redirect_deliver_card ''MODULO'' 1,
          Some (''RUT y Nombre son obligatorios.'', ''warning''), store_of [d_lopez 1 t_jan3])"
proof -
  have h1: "map_of CATEGORY_DEFINITIONS ''MODULO'' \<noteq> None"
    by (simp add: CATEGORY_DEFINITIONS_def)
  have h2: "find_card (store_of [d_lopez 1 t_jan3]) 1 ''MODULO'' = Some card_1001"
    by (simp add: find_card_def example_defs)
  have h3: "strip (form_get (form_of ''  '' ''B. Soto'' ''2024-01-01 10:00:00'' []) ''rut'') = [] \<or>
    strip (form_get (form_of ''  '' ''B. Soto'' ''2024-01-01 10:00:00'' []) ''nombre'') = []"
    by (simp add: run_defs)
  from h1 h2 h3 C7_required_fields [OF h1 h2 h3] show ?thesis by blast
qed




section \<open>Importing cards\<close>

lemma fill_fields_id: "id_c (fst (fill_fields df row flds acc)) = id_c (fst acc)"
  by (induction flds arbitrary: acc) (auto simp add: Let_def setattr_card_def)

lemma fill_fields_empty:
  "snd (fill_fields df row flds acc) \<longleftrightarrow> snd acc \<and> \<not> row_has_value df flds row"
  by (induction flds arbitrary: acc) (auto simp add: Let_def row_has_value_def)

lemma row_card_empty: "snd (row_card df code flds row) \<longleftrightarrow> \<not> row_has_value df flds row"
  using fill_fields_empty [of df row flds "(new_card code, True)"]
  by (simp add: row_card_def split_beta)

lemma row_card_id: "id_c (fst (row_card df code flds row)) = 0"
  using fill_fields_id [of df row flds "(new_card code, True)"]
  by (simp add: row_card_def split_beta new_card_def)

lemma row_card_status:
  "status (fst (row_card df code flds row)) = Some (status_value df row)"
  by (simp add: row_card_def split_beta)

lemma import_rows_spec:
  "\<exists>new. import_rows df code flds rs (cs, k) = (cs @ new, k + length new) \<and>
         map (\<lambda>c. c\<lparr>id_c := 0\<rparr>) new =
           map (\<lambda>row. fst (row_card df code flds row)) (filter (row_has_value df flds) rs)"
proof (induction rs arbitrary: cs k)
  case Nil
  then show ?case by simp
next
  case (Cons row rs)
  show ?case
  proof (cases "row_has_value df flds row")
    case True
    let ?c = "(fst (row_card df code flds row))\<lparr>id_c := next_id (map id_c cs)\<rparr>"
    from Cons.IH [of "cs @ [?c]" "k + 1"] obtain new where
      n: "import_rows df code flds rs (cs @ [?c], k + 1) = ((cs @ [?c]) @ new, k + 1 + length new)"
      and m: "map (\<lambda>c. c\<lparr>id_c := 0\<rparr>) new =
           map (\<lambda>row. fst (row_card df code flds row)) (filter (row_has_value df flds) rs)"
      by blast
    have e: "\<not> snd (row_card df code flds row)" using True by (simp add: row_card_empty)
    have z: "?c\<lparr>id_c := 0\<rparr> = fst (row_card df code flds row)"
      using row_card_id [of df code flds row] by simp
    have "import_rows df code flds (row # rs) (cs, k) = (cs @ (?c # new), k + length (?c # new))"
      using n e by (simp add: split_beta)
    moreover have "map (\<lambda>c. c\<lparr>id_c := 0\<rparr>) (?c # new) =
           map (\<lambda>row. fst (row_card df code flds row)) (filter (row_has_value df flds) (row # rs))"
      using m z True by simp
    ultimately show ?thesis by blast
  next
    case False
    then have e: "snd (row_card df code flds row)" by (simp add: row_card_empty)
    from Cons.IH [of cs k] e False show ?thesis by (simp add: split_beta)
  qed
qed

lemma sheet_3_rows:
  "filter (row_has_value sheet_3 (the (map_of CATEGORY_DEFINITIONS ''MODULO''))) (rows sheet_3) =
     [[''7'', ''Porton sur'', ''Inactiva''], [''8'', [], ''activa'']]"
  by (simp add: sheet_3_def row_has_value_def field_value_def row_get_def CATEGORY_DEFINITIONS_def
      strip_def is_space_def)

lemma str_nat_2: "str_nat 2 = ''2''"
  by (simp add: str_nat.simps [of 2] digit_def)

text \<open>
  C8. An import of a sheet into a known category adds, after the cards already stored, one
  card for each row that has at least one non-empty mapped field (the value of some field of
  the category, stripped, is not empty), in the order of the rows, and none for the other
  rows: each added card is the card built from its row but for the key. The count in the
  flashed message \<open>Se importaron <k> tarjetas desde el Excel.\<close> is the number of those
  rows; when there is none, the message says that no valid record was found. The status of
  the card of a row is \<open>Activa\<close> whenever the status cell of the row is neither
  \<open>Activa\<close> nor \<open>Inactiva\<close>.
\<close>

theorem C8_import_counts_nonempty_rows:
  assumes cat: "map_of CATEGORY_DEFINITIONS code = Some flds"
  shows "\<exists>resp fl s' new.
     import_cards (Sheet df) code s = Inr (resp, fl, s') \<and>
     cards s' = cards s @ new \<and>
     length new = length (filter (row_has_value df flds) (rows df)) \<and>
     map (\<lambda>c. c\<lparr>id_c := 0\<rparr>) new =
       map (\<lambda>row. fst (row_card df code flds row)) (filter (row_has_value df flds) (rows df)) \<and>
     (\<forall>row. status (fst (row_card df code flds row)) = Some (status_value df row) \<and>
        (raw_status df row \<noteq> ''Activa'' \<and> raw_status df row \<noteq> ''Inactiva'' \<longrightarrow>
           status_value df row = ''Activa'')) \<and>
     fl = Some (if length new \<noteq> 0
                then (''Se importaron '' @ str_nat (length new) @ '' tarjetas desde el Excel.'',
                      ''success'')
                else (''No se encontraron registros v'' @ [CHR 0xE1] @ ''lidos en el archivo.'',
                      ''info''))"
proof -
  from import_rows_spec [of df code flds "rows df" "cards s" 0] obtain new where
    n: "import_rows df code flds (rows df) (cards s, 0) = (cards s @ new, length new)"
    and m: "map (\<lambda>c. c\<lparr>id_c := 0\<rparr>) new =
           map (\<lambda>row. fst (row_card df code flds row)) (filter (row_has_value df flds) (rows df))"
    by auto
  from m have l: "length new = length (filter (row_has_value df flds) (rows df))"
    by (metis length_map)
  have st: "\<forall>row. status (fst (row_card df code flds row)) = Some (status_value df row) \<and>
        (raw_status df row \<noteq> ''Activa'' \<and> raw_status df row \<noteq> ''Inactiva'' \<longrightarrow>
           status_value df row = ''Activa'')"
    by (simp add: row_card_status status_value_def)
  show ?thesis
  proof (cases "new = []")
    case True
    have "import_cards (Sheet df) code s =
       Inr (Redirect_category_view code,
            Some (''No se encontraron registros v'' @ [CHR 0xE1] @ ''lidos en el archivo.'', ''info''), s)"
      using cat n True by (simp add: import_cards_def)
    with True l m st show ?thesis by simp
  next
    case False
    have "import_cards (Sheet df) code s =
       Inr (Redirect_category_view code,
            Some (''Se importaron '' @ str_nat (length new) @ '' tarjetas desde el Excel.'', ''success''),
            s\<lparr>cards := cards s @ new\<rparr>)"
      using cat n False by (simp add: import_cards_def)
    with False l m st show ?thesis by simp
  qed
qed

theorem C8_import_counts_nonempty_rows_witness:
  "map_of CATEGORY_DEFINITIONS ''MODULO'' = Some (the (map_of CATEGORY_DEFINITIONS ''MODULO'')) \<and>
   (\<exists>resp s' new.
      import_cards (Sheet sheet_3) ''MODULO'' (store_of []) =
        Inr (resp, Some (''Se importaron 2 tarjetas desde el Excel.'', ''success''), s') \<and>
      cards s' = cards (store_of []) @ new \<and> length new = 2 \<and>
      map status new = [Some ''Inactiva'', Some ''Activa''])"
proof -
  let ?flds = "the (map_of CATEGORY_DEFINITIONS ''MODULO'')"
  have h: "map_of CATEGORY_DEFINITIONS ''MODULO'' = Some ?flds"
    by (simp add: CATEGORY_DEFINITIONS_def)
  from C8_import_counts_nonempty_rows [OF h, of sheet_3 "store_of []"] obtain resp fl s' new where
    r: "import_cards (Sheet sheet_3) ''MODULO'' (store_of []) = Inr (resp, fl, s')"
    and c: "cards s' = cards (store_of []) @ new"
    and l: "length new = length (filter (row_has_value sheet_3 ?flds) (rows sheet_3))"
    and m: "map (\<lambda>c. c\<lparr>id_c := 0\<rparr>) new =
       map (\<lambda>row. fst (row_card sheet_3 ''MODULO'' ?flds row))
         (filter (row_has_value sheet_3 ?flds) (rows sheet_3))"
    and st: "\<forall>row. status (fst (row_card sheet_3 ''MODULO'' ?flds row)) = Some (status_value sheet_3 row) \<and>
        (raw_status sheet_3 row \<noteq> ''Activa'' \<and> raw_status sheet_3 row \<noteq> ''Inactiva'' \<longrightarrow>
           status_value sheet_3 row = ''Activa'')"
    and f: "fl = Some (if length new \<noteq> 0
                then (''Se importaron '' @ str_nat (length new) @ '' tarjetas desde el Excel.'',
                      ''success'')
                else (''No se encontraron registros v'' @ [CHR 0xE1] @ ''lidos en el archivo.'',
                      ''info''))"
    by blast
  from l have l2: "length new = 2" by (simp add: sheet_3_rows)
  from f l2 have f2: "fl = Some (''Se importaron 2 tarjetas desde el Excel.'', ''success'')"
    by (simp add: str_nat_2)
  have "map status (map (\<lambda>c. c\<lparr>id_c := 0\<rparr>) new) = map status new" by simp
  then have "map status new =
      map (\<lambda>row. Some (status_value sheet_3 row)) [[''7'', ''Porton sur'', ''Inactiva''], [''8'', [], ''activa'']]"
    using st unfolding m sheet_3_rows by simp
  then have s2: "map status new = [Some ''Inactiva'', Some ''Activa'']"
    by (simp add: status_value_def raw_status_def row_get_def sheet_3_def strip_def is_space_def)
  from r f2 have r2: "import_cards (Sheet sheet_3) ''MODULO'' (store_of []) =
      Inr (resp, Some (''Se importaron 2 tarjetas desde el Excel.'', ''success''), s')"
    by simp
  show ?thesis
    by (intro conjI exI) (rule h r2 c l2 s2)+
qed

section \<open>Default credentials\<close>

lemma hash_add_passwords: "map hash (add_passwords hs ps) = map hash ps @ hs"
  by (induction hs arbitrary: ps) simp_all

text \<open>
  C9, as stated: the default credentials are seeded only when the credential store is
  empty. It fails: on a store that holds one credential of its own and none of the
  defaults, \<open>ensure_default_passwords\<close> adds the three defaults.
\<close>

theorem C9_seeds_nonempty_store_counterexample:
  "passwords store_own_password \<noteq> [] \<and>
   ensure_default_passwords sha256_table store_own_password =
     Inr (store_own_password
       \<lparr>passwords :=
          [\<lparr>id_p = 4, hash = ''c0c9f7ee783cf9309823f5a061510ce5b621fe0f858f6dda37a0772e80c815e8''\<rparr>,
           \<lparr>id_p = 5, hash = ''cd4ef933429470f1d23901a5616255fe81444e83201984cf27e639bec64804cb''\<rparr>,
           \<lparr>id_p = 6, hash = ''9f4f57e6598572e2e87b2742822112483a25dd6774d97291e784e91033c93d9c''\<rparr>,
           \<lparr>id_p = 7, hash = ''a5b07e1516734beb9ff4d2ea69b22ac92e84014404f39d2bdefa735ff87822f1''\<rparr>]\<rparr>) \<and>
   ensure_default_passwords sha256_table store_own_password \<noteq> Inr store_own_password"
  by (simp add: ensure_default_passwords_def store_own_password_def sha256_table_def
      DEFAULT_PASSWORDS_def next_id_def Let_def)

text \<open>
  C9, amended. With a digest that tells the three default credentials apart,
  \<open>ensure_default_passwords\<close> succeeds on every store, empty or not: it adds, after the
  stored credentials, the digests of the default credentials that are not stored yet, and
  those only. Running it again on the result changes nothing, and a store without
  duplicate digests stays so.
\<close>

theorem C9_adds_missing_defaults_idempotent:
  assumes inj: "distinct (map sha256 DEFAULT_PASSWORDS)"
  shows "\<exists>s'. ensure_default_passwords sha256 s = Inr s' \<and>
     ensure_default_passwords sha256 s' = Inr s' \<and>
     map hash (passwords s') =
       map hash (passwords s) @
       filter (\<lambda>h. h \<notin> set (map hash (passwords s))) (map sha256 DEFAULT_PASSWORDS) \<and>
     (distinct (map hash (passwords s)) \<longrightarrow> distinct (map hash (passwords s')))"
proof -
  let ?new = "filter (\<lambda>h. h \<notin> set (map hash (passwords s))) (map sha256 DEFAULT_PASSWORDS)"
  have d: "distinct ?new" using inj by (rule distinct_filter)
  show ?thesis
  proof (cases "?new = []")
    case True
    then have "ensure_default_passwords sha256 s = Inr s"
      by (simp add: ensure_default_passwords_def)
    with True show ?thesis by simp
  next
    case False
    let ?s' = "s\<lparr>passwords := add_passwords ?new (passwords s)\<rparr>"
    have r: "ensure_default_passwords sha256 s = Inr ?s'"
      using False d by (simp add: ensure_default_passwords_def Let_def)
    have h: "map hash (passwords ?s') = map hash (passwords s) @ ?new"
      by (simp add: hash_add_passwords)
    have "filter (\<lambda>h. h \<notin> set (map hash (passwords ?s'))) (map sha256 DEFAULT_PASSWORDS) = []"
      unfolding h by (auto simp add: filter_empty_conv)
    then have i: "ensure_default_passwords sha256 ?s' = Inr ?s'"
      by (simp add: ensure_default_passwords_def Let_def)
    have "distinct (map hash (passwords s)) \<longrightarrow> distinct (map hash (passwords ?s'))"
      unfolding h using d by auto
    with r i h show ?thesis by blast
  qed
qed


theorem C9_adds_missing_defaults_idempotent_witness:
  "distinct (map sha256_table DEFAULT_PASSWORDS) \<and>
   (\<exists>s'. ensure_default_passwords sha256_table store_own_password = Inr s' \<and>
     ensure_default_passwords sha256_table s' = Inr s' \<and>
     length (passwords s') = 4 \<and> distinct (map hash (passwords s')))"
proof -
  have h: "distinct (map sha256_table DEFAULT_PASSWORDS)"
    by (simp add: sha256_table_def DEFAULT_PASSWORDS_def)
  from C9_adds_missing_defaults_idempotent [OF h, of store_own_password] obtain s' where
    a: "ensure_default_passwords sha256_table store_own_password = Inr s'"
    and b: "ensure_default_passwords sha256_table s' = Inr s'"
    and c: "map hash (passwords s') =
       map hash (passwords store_own_password) @
       filter (\<lambda>h. h \<notin> set (map hash (passwords store_own_password)))
         (map sha256_table DEFAULT_PASSWORDS)"
    and d: "distinct (map hash (passwords store_own_password)) \<longrightarrow> distinct (map hash (passwords s'))"
    by blast
  from c have "length (map hash (passwords s')) = 4"
    by (simp add: store_own_password_def sha256_table_def DEFAULT_PASSWORDS_def)
  then have l: "length (passwords s') = 4" by simp
  from d have e: "distinct (map hash (passwords s'))"
    by (simp add: store_own_password_def)
  from h a b l e show ?thesis by blast
qed

end
